theory Spec2Isabelle
  imports Complex_Main "HOL-Library.Multiset"
begin

section \<open>Values, exceptions and responses\<close>

text \<open>
  Request fields (\<open>req.body.x\<close>, \<open>req.query.x\<close>) are either missing or strings;
  numbers, arrays and objects in a request are not modelled. The handlers only test
  the fields for truthiness, concatenate them and compare them with \<open>===\<close>;
  \<open>truthy\<close> and \<open>to_string\<close> are JavaScript's rules for these two kinds of
  value. Strings are byte strings (UTF-8).
\<close>

datatype jsval = Undefined | Str string

fun truthy :: "jsval \<Rightarrow> bool" where
  "truthy Undefined = False"
| "truthy (Str s) = (s \<noteq> [])"

fun to_string :: "jsval \<Rightarrow> string" where
  "to_string Undefined = ''undefined''"
| "to_string (Str s) = s"

text \<open>\<open>a || b\<close>\<close>

definition js_or :: "jsval \<Rightarrow> jsval \<Rightarrow> jsval" where
  "js_or a b = (if truthy a then a else b)"

text \<open>\<open>x || ''\<close> for a field that is written to a sheet row.\<close>

definition or_empty :: "jsval \<Rightarrow> string" where
  "or_empty v = (if truthy v then to_string v else [])"

datatype exn = ReferenceError | TypeError | SyntaxError | NetworkError | HttpError nat

text \<open>The payment object of the gateway (\<open>paymentResp.data\<close>); the amount is in paise.\<close>

record payment =
  pay_status :: string
  pay_amount :: int
  pay_method :: string

text \<open>
  What a handler sends: \<open>Verdict\<close> is \<open>res.json({valid, reason, payment})\<close>,
  \<open>ErrorJson\<close> is \<open>res.json({error})\<close>, \<open>Redeemed\<close> is
  \<open>res.json({valid: true, order_id, payment_id, amount})\<close>, \<open>Send\<close> is \<open>res.send\<close>
  and \<open>Redirect\<close> is \<open>res.redirect\<close>.
\<close>

datatype body =
    Verdict bool "string option" "payment option"
  | ErrorJson string
  | Redeemed jsval jsval "rat option"
  | Send string
  | Redirect string

record response =
  code :: nat
  content :: body

definition reply :: "nat \<Rightarrow> body \<Rightarrow> response" where
  "reply c b = \<lparr>code = c, content = b\<rparr>"

section \<open>Process state and the remote sheets\<close>

record token =
  tok_order_id :: jsval
  tok_payment_id :: jsval
  tok_amount :: rat
  expires :: int

text \<open>A row of the sheet \<open>transactions\<close>, as \<open>saveTransaction\<close> of server.js builds it.\<close>

record tx_row =
  tx_timestamp :: int
  tx_order_id :: string
  tx_payment_id :: string
  tx_status :: string
  tx_amount :: "rat option"
  tx_method :: string
  tx_raw_response :: "payment option"

datatype raw_data = RawPayment payment | RawError exn | RawEmpty

text \<open>A row of the sheet \<open>verification_logs\<close>, as \<open>saveVerificationLog\<close> builds it.\<close>

record vlog_row =
  vl_timestamp :: int
  vl_step :: string
  vl_order_id :: string
  vl_payment_id :: string
  vl_signature_matched :: "bool option"
  vl_razorpay_status :: string
  vl_raw_data :: raw_data

text \<open>
  \<open>processingPayments\<close> is the \<open>Set\<close> of server.js, line 18; \<open>successTokens\<close> is
  \<open>global.successTokens\<close>, which is \<open>undefined\<close> (\<open>None\<close>) until the first successful
  callback creates the object. The two sheets are the rows held by the service behind
  \<open>GSHEET_LOG_URL\<close>.
\<close>

record world =
  processingPayments :: "jsval set"
  successTokens :: "(string \<rightharpoonup> token) option"
  transactions :: "tx_row list"
  verification_logs :: "vlog_row list"

section \<open>The token store: \<open>/validate_success\<close>\<close>

text \<open>
  \<open>global.successTokens\<close> is created as \<open>{}\<close>, an ordinary object: a property read
  \<open>global.successTokens[ref]\<close> that finds no own property continues in
  \<open>Object.prototype\<close>, whose members are functions (and, for \<open>__proto__\<close>, the
  prototype object itself), all truthy.
\<close>

definition Object_prototype_keys :: "string list" where
  "Object_prototype_keys =
     [''constructor'', ''__proto__'', ''hasOwnProperty'', ''isPrototypeOf'',
      ''propertyIsEnumerable'', ''toLocaleString'', ''toString'', ''valueOf'',
      ''__defineGetter__'', ''__defineSetter__'', ''__lookupGetter__'', ''__lookupSetter__'']"

datatype property = Absent | Own token | Inherited

definition js_get :: "(string \<rightharpoonup> token) \<Rightarrow> string \<Rightarrow> property" where
  "js_get store k =
     (case store k of
        Some t \<Rightarrow> Own t
      | None \<Rightarrow> if k \<in> set Object_prototype_keys then Inherited else Absent)"

text \<open>\<open>delete global.successTokens[ref]\<close> removes an own property and nothing else.\<close>

definition js_delete :: "(string \<rightharpoonup> token) \<Rightarrow> string \<Rightarrow> (string \<rightharpoonup> token)" where
  "js_delete store k = store(k := None)"

text \<open>
  server.js, lines 529 to 551. \<open>now\<close> is \<open>Date.now()\<close>. For an inherited member
  \<open>data.expires\<close> is \<open>undefined\<close>, so \<open>Date.now() > data.expires\<close> is false, the
  \<open>delete\<close> finds no own property, and the fields of the answer are \<open>undefined\<close>.
\<close>

definition validate_success :: "int \<Rightarrow> jsval \<Rightarrow> world \<Rightarrow> response \<times> world" where
  "validate_success now ref w =
     (if \<not> truthy ref then (reply 403 (Verdict False None None), w)
      else case successTokens w of
        None \<Rightarrow> (reply 403 (Verdict False None None), w)
      | Some store \<Rightarrow>
          (case js_get store (to_string ref) of
             Absent \<Rightarrow> (reply 403 (Verdict False None None), w)
           | Inherited \<Rightarrow> (reply 200 (Redeemed Undefined Undefined None), w)
           | Own data \<Rightarrow>
               if now > expires data
               then (reply 403 (Verdict False None None),
                     w\<lparr>successTokens := Some (js_delete store (to_string ref))\<rparr>)
               else (reply 200 (Redeemed (tok_order_id data) (tok_payment_id data)
                                  (Some (tok_amount data))),
                     w\<lparr>successTokens := Some (js_delete store (to_string ref))\<rparr>)))"

text \<open>
  A minted token is \<open>crypto.randomBytes(16).toString('hex')\<close>: 32 lower-case
  hexadecimal digits.
\<close>

definition is_hex_token :: "string \<Rightarrow> bool" where
  "is_hex_token s = (length s = 32 \<and> list_all (\<lambda>c. c \<in> set ''0123456789abcdef'') s)"

section \<open>The sheet service and the duplicate check\<close>

text \<open>
  Modelled from the spec: the service behind \<open>GSHEET_LOG_URL\<close> is not part of the
  repository. A delivered log request appends its row to the named sheet (section 6:
  the sink accepts append-only structured log rows).
\<close>

definition sheet_append :: "'r \<Rightarrow> 'r list \<Rightarrow> 'r list" where
  "sheet_append row rows = rows @ [row]"

text \<open>
  The handlers of server.js call \<open>isPaymentAlreadyProcessed(order_id, payment_id)\<close>
  (lines 60, 155 and 449). The file binds no such name: the only text that defines it
  is inside the commented-out block of lines 272 to 285. The handlers below take the
  binding of the name as a parameter: a \<open>helper\<close> gets the delivery of its request,
  the rows of the transactions sheet and the two identifiers, and either throws or
  returns a boolean.
\<close>

type_synonym helper = "bool \<Rightarrow> tx_row list \<Rightarrow> jsval \<Rightarrow> jsval \<Rightarrow> exn + bool"

text \<open>The file as it stands, where the name is not bound: the call throws.\<close>

definition unbound_helper :: helper where
  "unbound_helper delivered txs order_id payment_id = Inl ReferenceError"

text \<open>
  A call of a name that is not bound throws while the call is evaluated, before any
  promise exists, so the exception reaches the \<open>catch\<close> block in the same run of the
  event loop. A bound helper is an async function: the caller is suspended at the
  \<open>await\<close>, other requests may run, and what the helper returns or throws arrives
  when the caller is resumed.
\<close>

datatype binding = Unbound | Bound helper

definition helper_of :: "binding \<Rightarrow> helper" where
  "helper_of b = (case b of Unbound \<Rightarrow> unbound_helper | Bound h \<Rightarrow> h)"

section \<open>server.js: logging and \<open>saveTransaction\<close>\<close>

text \<open>
  Lines 45 to 56: the request is sent, and a failure is caught and written to the
  console only. The sheet named by the first argument is the list the caller passes.
\<close>

definition logToGoogleSheet :: "bool \<Rightarrow> 'r \<Rightarrow> 'r list \<Rightarrow> 'r list" where
  "logToGoogleSheet delivered row rows = (if delivered then sheet_append row rows else rows)"

text \<open>
  The argument of \<open>saveTransaction\<close>. \<open>d_time\<close> is the field \<open>time\<close> that the
  file-backed variants store; the callers of server.js pass none. They pass no
  \<open>verification_response\<close> and no \<open>raw_body\<close> either, so \<open>raw_response\<close> is the
  payment or \<open>{}\<close>.
\<close>

record tx_data =
  d_order_id :: jsval
  d_payment_id :: jsval
  d_status :: string
  d_amount :: "rat option"
  d_method :: jsval
  d_raw_payment_response :: "payment option"
  d_time :: "int option"

text \<open>\<open>data.amount || ''\<close>: a missing amount and the amount 0 are both written as \<open>''\<close>.\<close>

definition amount_or_empty :: "rat option \<Rightarrow> rat option" where
  "amount_or_empty a = (case a of None \<Rightarrow> None | Some x \<Rightarrow> if x = 0 then None else Some x)"

definition transaction_row :: "int \<Rightarrow> tx_data \<Rightarrow> tx_row" where
  "transaction_row now d =
     \<lparr>tx_timestamp = now,
      tx_order_id = or_empty (d_order_id d),
      tx_payment_id = or_empty (d_payment_id d),
      tx_status = d_status d,
      tx_amount = amount_or_empty (d_amount d),
      tx_method = or_empty (d_method d),
      tx_raw_response = d_raw_payment_response d\<rparr>"

text \<open>
  Lines 58 to 80. \<open>check_delivered\<close> and \<open>delivered\<close> say whether the two requests
  reach the service; \<open>now\<close> is \<open>new Date()\<close>. \<open>Inl\<close> is an exception of the helper.
\<close>

definition saveTransaction ::
  "helper \<Rightarrow> bool \<Rightarrow> bool \<Rightarrow> int \<Rightarrow> tx_data \<Rightarrow> tx_row list \<Rightarrow> exn + tx_row list" where
  "saveTransaction H check_delivered delivered now d txs =
     (if d_status d = ''SUCCESS'' then
        (case H check_delivered txs (d_order_id d) (d_payment_id d) of
           Inl err \<Rightarrow> Inl err
         | Inr already \<Rightarrow>
             if already then Inr txs
             else Inr (logToGoogleSheet delivered (transaction_row now d) txs))
      else Inr (logToGoogleSheet delivered (transaction_row now d) txs))"

record vlog =
  l_step :: string
  l_order_id :: jsval
  l_payment_id :: jsval
  l_signature_matched :: "bool option"
  l_razorpay_status :: "string option"
  l_full_response :: "payment option"
  l_error :: "exn option"

definition verification_row :: "int \<Rightarrow> vlog \<Rightarrow> vlog_row" where
  "verification_row now l =
     \<lparr>vl_timestamp = now,
      vl_step = l_step l,
      vl_order_id = or_empty (l_order_id l),
      vl_payment_id = or_empty (l_payment_id l),
      vl_signature_matched = l_signature_matched l,
      vl_razorpay_status = (case l_razorpay_status l of None \<Rightarrow> [] | Some s \<Rightarrow> s),
      vl_raw_data =
        (case l_full_response l of
           Some p \<Rightarrow> RawPayment p
         | None \<Rightarrow> (case l_error l of Some e \<Rightarrow> RawError e | None \<Rightarrow> RawEmpty))\<rparr>"

text \<open>Lines 82 to 96.\<close>

definition saveVerificationLog :: "bool \<Rightarrow> int \<Rightarrow> vlog \<Rightarrow> vlog_row list \<Rightarrow> vlog_row list" where
  "saveVerificationLog delivered now l rows =
     logToGoogleSheet delivered (verification_row now l) rows"

section \<open>server.js: \<open>/verify_payment\<close>\<close>

text \<open>
  \<open>crypto.createHmac('sha256', key).update(msg).digest('hex')\<close> is Node's library;
  the handlers take it as the parameter \<open>hmac\<close>, from key and message to the
  hexadecimal digest. \<open>secret\<close> is \<open>RAZORPAY_KEY_SECRET\<close>, a string of the
  environment. \<open>order_id + "|" + payment_id\<close> converts a missing field to the text
  \<open>undefined\<close>.
\<close>

definition generated_signature ::
  "(string \<Rightarrow> string \<Rightarrow> string) \<Rightarrow> string \<Rightarrow> jsval \<Rightarrow> jsval \<Rightarrow> string" where
  "generated_signature hmac secret order_id payment_id =
     hmac secret (to_string order_id @ ''|'' @ to_string payment_id)"

text \<open>\<open>generated_signature === signature\<close>\<close>

definition signatureMatched ::
  "(string \<Rightarrow> string \<Rightarrow> string) \<Rightarrow> string \<Rightarrow> jsval \<Rightarrow> jsval \<Rightarrow> jsval \<Rightarrow> bool" where
  "signatureMatched hmac secret order_id payment_id signature =
     (Str (generated_signature hmac secret order_id payment_id) = signature)"

record verify_req =
  order_id :: jsval
  payment_id :: jsval
  signature :: jsval

text \<open>
  What the outside world does during one run of the handler: whether the requests to
  the sheet service are delivered, the clock at each log, and the outcome of the
  \<open>axios.get\<close> on the gateway's payment (\<open>Inl\<close>: it throws, on a network error or a
  status outside 2xx).
\<close>

record verify_env =
  ve_check_delivered :: bool
  ve_log1_delivered :: bool
  ve_log1_time :: int
  ve_status_api :: "exn + payment"
  ve_log2_delivered :: bool
  ve_log2_time :: int

definition log_row :: "bool \<Rightarrow> int \<Rightarrow> vlog \<Rightarrow> world \<Rightarrow> world" where
  "log_row delivered now l w =
     w\<lparr>verification_logs := saveVerificationLog delivered now l (verification_logs w)\<rparr>"

definition signature_log :: "verify_req \<Rightarrow> bool \<Rightarrow> vlog" where
  "signature_log req matched =
     \<lparr>l_step = ''SIGNATURE_VERIFICATION'', l_order_id = order_id req,
      l_payment_id = payment_id req, l_signature_matched = Some matched,
      l_razorpay_status = None, l_full_response = None, l_error = None\<rparr>"

definition status_log :: "verify_req \<Rightarrow> payment \<Rightarrow> vlog" where
  "status_log req p =
     \<lparr>l_step = ''STATUS_API'', l_order_id = order_id req,
      l_payment_id = payment_id req, l_signature_matched = None,
      l_razorpay_status = Some (pay_status p), l_full_response = Some p, l_error = None\<rparr>"

definition status_error_log :: "verify_req \<Rightarrow> exn \<Rightarrow> vlog" where
  "status_error_log req err =
     \<lparr>l_step = ''STATUS_API_ERROR'', l_order_id = order_id req,
      l_payment_id = payment_id req, l_signature_matched = None,
      l_razorpay_status = None, l_full_response = None, l_error = Some err\<rparr>"

text \<open>
  Lines 150 to 235. The duplicate check of line 155 is outside the \<open>try\<close>: when the
  helper throws, the handler's promise is rejected and it sends no response (\<open>None\<close>).
\<close>

definition verify_payment ::
  "helper \<Rightarrow> (string \<Rightarrow> string \<Rightarrow> string) \<Rightarrow> string \<Rightarrow> verify_env \<Rightarrow> verify_req \<Rightarrow> world
     \<Rightarrow> response option \<times> world" where
  "verify_payment H hmac secret env req w =
     (case H (ve_check_delivered env) (transactions w) (order_id req) (payment_id req) of
        Inl err \<Rightarrow> (None, w)
      | Inr alreadyVerified \<Rightarrow>
          if alreadyVerified
          then (Some (reply 200 (Verdict False (Some ''Payment already processed'') None)), w)
          else
            let matched = signatureMatched hmac secret (order_id req) (payment_id req)
                            (signature req);
                w1 = log_row (ve_log1_delivered env) (ve_log1_time env)
                       (signature_log req matched) w
            in if \<not> matched
               then (Some (reply 200 (Verdict False (Some ''Signature mismatch'') None)), w1)
               else
                 (case ve_status_api env of
                    Inr p \<Rightarrow>
                      let w2 = log_row (ve_log2_delivered env) (ve_log2_time env)
                                 (status_log req p) w1
                      in if pay_status p \<noteq> ''captured''
                         then (Some (reply 200 (Verdict False (Some ''Payment not captured'') None)),
                               w2)
                         else (Some (reply 200 (Verdict True None (Some p))), w2)
                  | Inl err \<Rightarrow>
                      (Some (reply 500 (Verdict False (Some ''Status API failed'') None)),
                       log_row (ve_log2_delivered env) (ve_log2_time env)
                         (status_error_log req err) w1)))"

section \<open>server.js: \<open>/payment_callback\<close>\<close>

record callback_req =
  body_razorpay_payment_id :: jsval
  query_razorpay_payment_id :: jsval
  body_razorpay_order_id :: jsval
  query_razorpay_order_id :: jsval
  body_razorpay_signature :: jsval
  query_razorpay_signature :: jsval

definition razorpay_payment_id :: "callback_req \<Rightarrow> jsval" where
  "razorpay_payment_id req = js_or (body_razorpay_payment_id req) (query_razorpay_payment_id req)"

definition razorpay_order_id :: "callback_req \<Rightarrow> jsval" where
  "razorpay_order_id req = js_or (body_razorpay_order_id req) (query_razorpay_order_id req)"

definition razorpay_signature :: "callback_req \<Rightarrow> jsval" where
  "razorpay_signature req = js_or (body_razorpay_signature req) (query_razorpay_signature req)"

text \<open>\<open>verifyResp.data\<close>, the JSON that \<open>/verify_payment\<close> answered.\<close>

record verify_data =
  vd_valid :: bool
  vd_payment :: "payment option"

text \<open>
  The outside world during one run of the callback: the delivery of the duplicate
  check, the outcome of the \<open>axios.post\<close> to \<open>/verify_payment\<close> (\<open>Inl\<close>: it
  throws), the delivery of the check and of the row inside \<open>saveTransaction\<close>, the
  clock there, the 16 random bytes in hexadecimal, and the clock when the token is
  stored.
\<close>

record callback_env =
  ce_check_delivered :: bool
  ce_verify :: "exn + verify_data"
  ce_save_check_delivered :: bool
  ce_save_delivered :: bool
  ce_save_time :: int
  ce_random_hex :: string
  ce_mint_time :: int

definition FRONTEND_BASE_URL :: string where
  "FRONTEND_BASE_URL = ''https://studentforgesf.netlify.app/''"

text \<open>What \<open>axios.post\<close> makes of a response: a status outside 2xx is thrown.\<close>

definition axios_result :: "response \<Rightarrow> exn + verify_data" where
  "axios_result r =
     (if 200 \<le> code r \<and> code r < 300
      then (case content r of
              Verdict v reason p \<Rightarrow> Inr \<lparr>vd_valid = v, vd_payment = p\<rparr>
            | _ \<Rightarrow> Inr \<lparr>vd_valid = False, vd_payment = None\<rparr>)
      else Inl (HttpError (code r)))"

text \<open>Line 445 and line 503 (the \<open>finally\<close>).\<close>

definition processingPayments_add :: "jsval \<Rightarrow> world \<Rightarrow> world" where
  "processingPayments_add pid w = w\<lparr>processingPayments := insert pid (processingPayments w)\<rparr>"

definition processingPayments_delete :: "jsval \<Rightarrow> world \<Rightarrow> world" where
  "processingPayments_delete pid w = w\<lparr>processingPayments := processingPayments w - {pid}\<rparr>"

definition success_data :: "jsval \<Rightarrow> jsval \<Rightarrow> payment \<Rightarrow> tx_data" where
  "success_data oid pid p =
     \<lparr>d_order_id = oid, d_payment_id = pid, d_status = ''SUCCESS'',
      d_amount = Some (of_int (pay_amount p) / 100), d_method = Str (pay_method p),
      d_raw_payment_response = Some p, d_time = None\<rparr>"

definition mint :: "string \<Rightarrow> int \<Rightarrow> jsval \<Rightarrow> jsval \<Rightarrow> payment \<Rightarrow> world \<Rightarrow> world" where
  "mint successToken now oid pid p w =
     (let store = (case successTokens w of None \<Rightarrow> Map.empty | Some s \<Rightarrow> s)
      in w\<lparr>successTokens :=
             Some (store(successToken \<mapsto>
               \<lparr>tok_order_id = oid, tok_payment_id = pid,
                tok_amount = of_int (pay_amount p) / 100,
                expires = now + 5 * 60 * 1000\<rparr>))\<rparr>)"

text \<open>
  Lines 447 to 501, the \<open>try\<close> block with its \<open>catch\<close>: every exception (of the
  helper, of the verification request, of reading \<open>payment.amount\<close> when the answer
  carries no payment) ends in the 500 of line 500.
\<close>

definition callback_try ::
  "helper \<Rightarrow> callback_env \<Rightarrow> jsval \<Rightarrow> jsval \<Rightarrow> world \<Rightarrow> response \<times> world" where
  "callback_try H env pid oid w =
     (case H (ce_check_delivered env) (transactions w) oid pid of
        Inl err \<Rightarrow> (reply 500 (Send ''Server error''), w)
      | Inr alreadyProcessed \<Rightarrow>
          if alreadyProcessed then (reply 409 (Send ''Duplicate payment ignored''), w)
          else
            (case ce_verify env of
               Inl err \<Rightarrow> (reply 500 (Send ''Server error''), w)
             | Inr verifyResp \<Rightarrow>
                 if \<not> vd_valid verifyResp then (reply 400 (Send ''Verification failed''), w)
                 else
                   (case vd_payment verifyResp of
                      None \<Rightarrow> (reply 500 (Send ''Server error''), w)
                    | Some p \<Rightarrow>
                        (case saveTransaction H (ce_save_check_delivered env)
                                (ce_save_delivered env) (ce_save_time env)
                                (success_data oid pid p) (transactions w) of
                           Inl err \<Rightarrow> (reply 500 (Send ''Server error''), w)
                         | Inr txs \<Rightarrow>
                             (reply 302 (Redirect (FRONTEND_BASE_URL @ ''payment_success.html?ref=''
                                                     @ ce_random_hex env)),
                              mint (ce_random_hex env) (ce_mint_time env) oid pid p
                                (w\<lparr>transactions := txs\<rparr>))))))"

text \<open>The \<open>try\<close> block followed by the \<open>finally\<close> of lines 502 to 504.\<close>

definition callback_locked ::
  "helper \<Rightarrow> callback_env \<Rightarrow> jsval \<Rightarrow> jsval \<Rightarrow> world \<Rightarrow> response \<times> world" where
  "callback_locked H env pid oid w =
     (case callback_try H env pid oid w of (r, w') \<Rightarrow> (r, processingPayments_delete pid w'))"

text \<open>
  Lines 423 to 506. Everything up to line 445 runs without a suspension; the rest,
  \<open>callback_locked\<close>, runs while the payment id is in \<open>processingPayments\<close>.
\<close>

definition payment_callback ::
  "helper \<Rightarrow> callback_env \<Rightarrow> callback_req \<Rightarrow> world \<Rightarrow> response \<times> world" where
  "payment_callback H env req w =
     (if \<not> truthy (razorpay_payment_id req) \<or> \<not> truthy (razorpay_order_id req)
         \<or> \<not> truthy (razorpay_signature req)
      then (reply 400 (Send ''Missing parameters''), w)
      else if razorpay_payment_id req \<in> processingPayments w
      then (reply 409 (Send ''Duplicate request blocked''), w)
      else callback_locked H env (razorpay_payment_id req) (razorpay_order_id req)
             (processingPayments_add (razorpay_payment_id req) w))"

section \<open>server.js: the callback between its suspensions\<close>

text \<open>
  A run of the callback that is suspended at an \<open>await\<close>, with the payment id and the
  order id it carries: at the duplicate check of line 449, at the verification request
  of line 458, at the duplicate check inside \<open>saveTransaction\<close> (line 60, with the
  payment of the verification), at the request that writes the row (line 47), or
  finished with its response.
\<close>

datatype task =
    AtCheck jsval jsval
  | AtVerify jsval jsval
  | AtSaveCheck jsval jsval payment
  | AtWrite jsval jsval payment
  | Finished response

text \<open>The payment id whose lock a suspended run holds.\<close>

fun holder :: "task \<Rightarrow> jsval option" where
  "holder (AtCheck pid oid) = Some pid"
| "holder (AtVerify pid oid) = Some pid"
| "holder (AtSaveCheck pid oid p) = Some pid"
| "holder (AtWrite pid oid p) = Some pid"
| "holder (Finished r) = None"

text \<open>An exit of the \<open>try\<close> block: the response, then the \<open>finally\<close> of line 503.\<close>

definition finish :: "response \<Rightarrow> jsval \<Rightarrow> world \<Rightarrow> task \<times> world" where
  "finish r pid w = (Finished r, processingPayments_delete pid w)"

definition success_redirect :: "callback_env \<Rightarrow> response" where
  "success_redirect env =
     reply 302 (Redirect (FRONTEND_BASE_URL @ ''payment_success.html?ref='' @ ce_random_hex env))"

text \<open>
  Lines 425 to 449, from the arrival of the request to the first suspension. With the
  helper unbound the call of line 449 throws at once, and the run ends in the
  \<open>catch\<close> and the \<open>finally\<close> without ever being suspended.
\<close>

definition callback_arrive :: "binding \<Rightarrow> callback_req \<Rightarrow> world \<Rightarrow> task \<times> world" where
  "callback_arrive b req w =
     (if \<not> truthy (razorpay_payment_id req) \<or> \<not> truthy (razorpay_order_id req)
         \<or> \<not> truthy (razorpay_signature req)
      then (Finished (reply 400 (Send ''Missing parameters'')), w)
      else if razorpay_payment_id req \<in> processingPayments w
      then (Finished (reply 409 (Send ''Duplicate request blocked'')), w)
      else
        (case b of
           Unbound \<Rightarrow>
             finish (reply 500 (Send ''Server error'')) (razorpay_payment_id req)
               (processingPayments_add (razorpay_payment_id req) w)
         | Bound h \<Rightarrow>
             (AtCheck (razorpay_payment_id req) (razorpay_order_id req),
              processingPayments_add (razorpay_payment_id req) w)))"

text \<open>
  One resumption: from an \<open>await\<close> to the next one or to the end of the run. The
  sheet is read and written in the world of the resumption.
\<close>

fun callback_resume :: "binding \<Rightarrow> callback_env \<Rightarrow> task \<Rightarrow> world \<Rightarrow> task \<times> world" where
  "callback_resume b env (AtCheck pid oid) w =
     (case helper_of b (ce_check_delivered env) (transactions w) oid pid of
        Inl err \<Rightarrow> finish (reply 500 (Send ''Server error'')) pid w
      | Inr alreadyProcessed \<Rightarrow>
          if alreadyProcessed then finish (reply 409 (Send ''Duplicate payment ignored'')) pid w
          else (AtVerify pid oid, w))"
| "callback_resume b env (AtVerify pid oid) w =
     (case ce_verify env of
        Inl err \<Rightarrow> finish (reply 500 (Send ''Server error'')) pid w
      | Inr verifyResp \<Rightarrow>
          if \<not> vd_valid verifyResp then finish (reply 400 (Send ''Verification failed'')) pid w
          else
            (case vd_payment verifyResp of
               None \<Rightarrow> finish (reply 500 (Send ''Server error'')) pid w
             | Some p \<Rightarrow>
                 (case b of
                    Unbound \<Rightarrow> finish (reply 500 (Send ''Server error'')) pid w
                  | Bound h \<Rightarrow> (AtSaveCheck pid oid p, w))))"
| "callback_resume b env (AtSaveCheck pid oid p) w =
     (case helper_of b (ce_save_check_delivered env) (transactions w) oid pid of
        Inl err \<Rightarrow> finish (reply 500 (Send ''Server error'')) pid w
      | Inr already \<Rightarrow>
          if already
          then finish (success_redirect env) pid
                 (mint (ce_random_hex env) (ce_mint_time env) oid pid p w)
          else (AtWrite pid oid p, w))"
| "callback_resume b env (AtWrite pid oid p) w =
     finish (success_redirect env) pid
       (mint (ce_random_hex env) (ce_mint_time env) oid pid p
          (w\<lparr>transactions :=
               logToGoogleSheet (ce_save_delivered env)
                 (transaction_row (ce_save_time env) (success_data oid pid p))
                 (transactions w)\<rparr>))"
| "callback_resume b env (Finished r) w = (Finished r, w)"

text \<open>A run has at most four suspensions: resuming four times completes it.\<close>

definition callback_complete ::
  "binding \<Rightarrow> callback_env \<Rightarrow> task \<times> world \<Rightarrow> task \<times> world" where
  "callback_complete b env tw =
     (case tw of (t0, w0) \<Rightarrow>
        (case callback_resume b env t0 w0 of (t1, w1) \<Rightarrow>
           (case callback_resume b env t1 w1 of (t2, w2) \<Rightarrow>
              (case callback_resume b env t2 w2 of (t3, w3) \<Rightarrow>
                 callback_resume b env t3 w3))))"

section \<open>server.js: requests that overlap\<close>

text \<open>
  The process serves one request at a time up to its next \<open>await\<close>. An event is the
  arrival of a callback, the resumption of the run that arrived as the \<open>n\<close>-th
  callback, a run of \<open>/verify_payment\<close>, or a redeem of \<open>/validate_success\<close>. The
  state is the world and the runs of the callbacks that have arrived, in the order of
  their arrival. \<open>/verify_payment\<close> writes to the verification log only and is taken
  as one event.
\<close>

datatype event =
    Callback callback_req
  | Resume nat callback_env
  | Verify verify_env verify_req
  | Redeem int jsval

definition step ::
  "binding \<Rightarrow> (string \<Rightarrow> string \<Rightarrow> string) \<Rightarrow> string \<Rightarrow> world \<times> task list \<Rightarrow> event
     \<Rightarrow> world \<times> task list" where
  "step b hmac secret sys ev =
     (case sys of (w, ts) \<Rightarrow>
        (case ev of
           Callback req \<Rightarrow>
             (case callback_arrive b req w of (t, w') \<Rightarrow> (w', ts @ [t]))
         | Resume n env \<Rightarrow>
             if n < length ts
             then (case callback_resume b env (ts ! n) w of (t, w') \<Rightarrow> (w', ts[n := t]))
             else (w, ts)
         | Verify env req \<Rightarrow> (snd (verify_payment (helper_of b) hmac secret env req w), ts)
         | Redeem now ref \<Rightarrow> (snd (validate_success now ref w), ts)))"

definition run ::
  "binding \<Rightarrow> (string \<Rightarrow> string \<Rightarrow> string) \<Rightarrow> string \<Rightarrow> world \<times> task list \<Rightarrow> event list
     \<Rightarrow> world \<times> task list" where
  "run b hmac secret sys evs = foldl (step b hmac secret) sys evs"

section \<open>The file-backed variants\<close>

text \<open>
  \<open>transactions.json\<close>: missing, an array of the objects written so far, or content
  that \<open>JSON.parse\<close> or \<open>push\<close> rejects.
\<close>

datatype tfile = NoFile | Rows "tx_data list" | Unparsable

text \<open>The \<open>saveTransaction\<close> of the two earlier variants (lines 206 to 214 and 280 to 288).\<close>

definition saveTransaction_file :: "tx_data \<Rightarrow> tfile \<Rightarrow> exn + tfile" where
  "saveTransaction_file d f =
     (case f of
        NoFile \<Rightarrow> Inr (Rows [d])
      | Rows existing \<Rightarrow> Inr (Rows (existing @ [d]))
      | Unparsable \<Rightarrow> Inl SyntaxError)"

text \<open>
  The \<open>/verify_payment\<close> of the two earlier variants (lines 92 to 132 and 95 to 135):
  the whole body is inside the \<open>try\<close>.
\<close>

definition verify_payment_file ::
  "(string \<Rightarrow> string \<Rightarrow> string) \<Rightarrow> string \<Rightarrow> (exn + payment) \<Rightarrow> int \<Rightarrow> verify_req \<Rightarrow> tfile
     \<Rightarrow> response \<times> tfile" where
  "verify_payment_file hmac secret status_api now req f =
     (if Str (generated_signature hmac secret (order_id req) (payment_id req)) \<noteq> signature req
      then (reply 200 (Verdict False (Some ''Signature mismatch'') None), f)
      else
        (case status_api of
           Inl err \<Rightarrow> (reply 500 (ErrorJson ''Verification failed''), f)
         | Inr p \<Rightarrow>
             if pay_status p \<noteq> ''captured''
             then (reply 200 (Verdict False (Some ''Payment not captured'') None), f)
             else
               (case saveTransaction_file
                       \<lparr>d_order_id = order_id req, d_payment_id = payment_id req,
                        d_status = ''SUCCESS'', d_amount = Some (of_int (pay_amount p)),
                        d_method = Undefined, d_raw_payment_response = None,
                        d_time = Some now\<rparr> f of
                  Inl err \<Rightarrow> (reply 500 (ErrorJson ''Verification failed''), f)
                | Inr f' \<Rightarrow> (reply 200 (Verdict True None (Some p)), f'))))"

section \<open>Predicates used by the statements\<close>

text \<open>The SUCCESS rows of a pair, in the sheet and in the file.\<close>

definition success_rows :: "tx_row list \<Rightarrow> string \<Rightarrow> string \<Rightarrow> tx_row list" where
  "success_rows txs oid pid =
     filter (\<lambda>r. tx_status r = ''SUCCESS'' \<and> tx_order_id r = oid \<and> tx_payment_id r = pid) txs"

definition file_success_rows :: "tfile \<Rightarrow> jsval \<Rightarrow> jsval \<Rightarrow> tx_data list" where
  "file_success_rows f oid pid =
     (case f of
        Rows xs \<Rightarrow> filter (\<lambda>d. d_status d = ''SUCCESS'' \<and> d_order_id d = oid
                                \<and> d_payment_id d = pid) xs
      | _ \<Rightarrow> [])"

text \<open>The number of rows the two sheets hold: the audit trail.\<close>

definition audit_entries :: "world \<Rightarrow> nat" where
  "audit_entries w = length (transactions w) + length (verification_logs w)"

text \<open>
  Every payment id in the lock set is held by exactly one suspended run, and no
  suspended run holds an id that is not in the set.
\<close>

definition lock_invariant :: "world \<times> task list \<Rightarrow> bool" where
  "lock_invariant sys =
     (\<forall>p. count (image_mset holder (mset (snd sys))) (Some p) =
           (if p \<in> processingPayments (fst sys) then 1 else 0))"

section \<open>Example inputs\<close>

text \<open>
  Concrete inputs at which the theorems below are instantiated. \<open>example_hmac\<close>
  stands in for the library's keyed hash where a concrete function is needed; no
  statement depends on what it computes.
\<close>

definition example_hmac :: "string \<Rightarrow> string \<Rightarrow> string" where
  "example_hmac key msg = key @ '':'' @ msg"

text \<open>
  Modelled from the spec: section 4.3, \<open>already_processed\<close>, true iff a SUCCESS
  transaction already exists for this pair. server.js binds no helper; this one stands
  for a bound helper where a statement about every binding is instantiated. A field
  that is \<open>undefined\<close> is compared as the empty string, which is what
  \<open>saveTransaction\<close> writes for it.
\<close>

definition example_helper :: helper where
  "example_helper delivered txs oid pid =
     Inr (list_ex (\<lambda>r. tx_status r = ''SUCCESS'' \<and> tx_order_id r = or_empty oid
                        \<and> tx_payment_id r = or_empty pid) txs)"

definition example_payment :: payment where
  "example_payment = \<lparr>pay_status = ''captured'', pay_amount = 50000, pay_method = ''upi''\<rparr>"

definition example_pending :: payment where
  "example_pending = \<lparr>pay_status = ''authorized'', pay_amount = 50000, pay_method = ''upi''\<rparr>"

definition example_token :: string where
  "example_token = ''0123456789abcdef0123456789abcdef''"

definition empty_world :: world where
  "empty_world = \<lparr>processingPayments = {}, successTokens = None, transactions = [],
                   verification_logs = []\<rparr>"

definition example_row :: tx_row where
  "example_row = \<lparr>tx_timestamp = 0, tx_order_id = ''order_1'', tx_payment_id = ''pay_1'',
                   tx_status = ''SUCCESS'', tx_amount = Some 500, tx_method = ''upi'',
                   tx_raw_response = Some example_payment\<rparr>"

definition paid_world :: world where
  "paid_world = empty_world\<lparr>transactions := [example_row]\<rparr>"

definition example_callback :: callback_req where
  "example_callback =
     \<lparr>body_razorpay_payment_id = Str ''pay_1'', query_razorpay_payment_id = Undefined,
      body_razorpay_order_id = Str ''order_1'', query_razorpay_order_id = Undefined,
      body_razorpay_signature = Str ''s3cret:order_1|pay_1'',
      query_razorpay_signature = Undefined\<rparr>"

definition example_callback_env :: callback_env where
  "example_callback_env =
     \<lparr>ce_check_delivered = True,
      ce_verify = Inr \<lparr>vd_valid = True, vd_payment = Some example_payment\<rparr>,
      ce_save_check_delivered = True, ce_save_delivered = True, ce_save_time = 10,
      ce_random_hex = example_token, ce_mint_time = 20\<rparr>"

definition example_verify :: verify_req where
  "example_verify = \<lparr>order_id = Str ''order_1'', payment_id = Str ''pay_1'',
                      signature = Str ''s3cret:order_1|pay_1''\<rparr>"

definition example_verify_env :: verify_env where
  "example_verify_env =
     \<lparr>ve_check_delivered = True, ve_log1_delivered = True, ve_log1_time = 1,
      ve_status_api = Inr example_payment, ve_log2_delivered = True, ve_log2_time = 2\<rparr>"

definition example_data :: tx_data where
  "example_data = \<lparr>d_order_id = Str ''order_1'', d_payment_id = Str ''pay_1'',
      d_status = ''SUCCESS'', d_amount = Some 50000, d_method = Undefined,
      d_raw_payment_response = None, d_time = Some 0\<rparr>"

lemmas example_defs = example_hmac_def example_helper_def example_payment_def example_pending_def
  example_token_def empty_world_def example_row_def paid_world_def example_callback_def
  example_callback_env_def example_verify_def example_verify_env_def example_data_def

section \<open>What the handlers leave unchanged\<close>

lemma gate_roundtrip:
  "pid \<notin> processingPayments w \<Longrightarrow>
     processingPayments_delete pid (processingPayments_add pid w) = w"
  by (cases w) (simp add: processingPayments_delete_def processingPayments_add_def)

lemma callback_try_gate:
  "processingPayments (snd (callback_try H env pid oid w)) = processingPayments w"
  by (simp add: callback_try_def mint_def Let_def split: sum.splits option.splits)

lemma verify_payment_transactions:
  "transactions (snd (verify_payment H hmac secret env req w)) = transactions w"
  by (simp add: verify_payment_def log_row_def Let_def split: sum.splits)

lemma verify_payment_gate:
  "processingPayments (snd (verify_payment H hmac secret env req w)) = processingPayments w
   \<and> successTokens (snd (verify_payment H hmac secret env req w)) = successTokens w"
  by (simp add: verify_payment_def log_row_def Let_def split: sum.splits)

lemma callback_try_unsuccessful:
  "code (fst (callback_try H env pid oid w)) \<noteq> 302 \<Longrightarrow> snd (callback_try H env pid oid w) = w"
  by (simp add: callback_try_def reply_def split: sum.splits option.splits if_splits)

lemma callback_try_invalid:
  "ce_verify env = Inr vd \<Longrightarrow> \<not> vd_valid vd \<Longrightarrow>
     code (fst (callback_try H env pid oid w)) \<noteq> 302 \<and> snd (callback_try H env pid oid w) = w"
  by (simp add: callback_try_def reply_def split: sum.splits option.splits)

lemma payment_callback_cases:
  "payment_callback H env req w = (reply 400 (Send ''Missing parameters''), w)
   \<or> payment_callback H env req w = (reply 409 (Send ''Duplicate request blocked''), w)
   \<or> (razorpay_payment_id req \<notin> processingPayments w
       \<and> payment_callback H env req w =
         (fst (callback_try H env (razorpay_payment_id req) (razorpay_order_id req)
                 (processingPayments_add (razorpay_payment_id req) w)),
          processingPayments_delete (razorpay_payment_id req)
            (snd (callback_try H env (razorpay_payment_id req) (razorpay_order_id req)
                 (processingPayments_add (razorpay_payment_id req) w)))))"
  by (simp add: payment_callback_def callback_locked_def split: prod.splits)

lemma payment_callback_unsuccessful:
  assumes "code (fst (payment_callback H env req w)) \<noteq> 302"
  shows "snd (payment_callback H env req w) = w"
proof -
  let ?pid = "razorpay_payment_id req"
  let ?t = "callback_try H env ?pid (razorpay_order_id req) (processingPayments_add ?pid w)"
  from payment_callback_cases [of H env req w]
  consider "snd (payment_callback H env req w) = w"
    | "?pid \<notin> processingPayments w" and
      "payment_callback H env req w = (fst ?t, processingPayments_delete ?pid (snd ?t))"
    by auto
  then show ?thesis
  proof cases
    case 1
    then show ?thesis .
  next
    case 2
    with assms have "code (fst ?t) \<noteq> 302" by simp
    then have "snd ?t = processingPayments_add ?pid w"
      by (rule callback_try_unsuccessful)
    with 2 show ?thesis by (simp add: gate_roundtrip)
  qed
qed

lemma payment_callback_gate:
  "processingPayments (snd (payment_callback H env req w)) = processingPayments w"
  using payment_callback_cases [of H env req w]
    callback_try_gate [of H env "razorpay_payment_id req" "razorpay_order_id req"
      "processingPayments_add (razorpay_payment_id req) w"]
  by (auto simp: processingPayments_add_def processingPayments_delete_def)

lemma payment_callback_invalid:
  assumes "ce_verify env = Inr vd" and "\<not> vd_valid vd"
  shows "code (fst (payment_callback H env req w)) \<noteq> 302"
  using payment_callback_cases [of H env req w] callback_try_invalid [OF assms]
  by (auto simp: reply_def)

lemma payment_callback_throws:
  assumes "ce_verify env = Inl err"
  shows "code (fst (payment_callback H env req w)) \<noteq> 302"
proof -
  have "code (fst (callback_try H env pid oid w')) \<noteq> 302" for pid oid w'
    using assms by (simp add: callback_try_def reply_def split: sum.splits)
  then show ?thesis
    using payment_callback_cases [of H env req w] by (auto simp: reply_def)
qed

lemma validate_success_keeps:
  "processingPayments (snd (validate_success now ref w)) = processingPayments w
   \<and> transactions (snd (validate_success now ref w)) = transactions w"
  by (simp add: validate_success_def split: option.splits property.splits)

lemma validate_success_no_store:
  "successTokens w = None \<Longrightarrow> validate_success now ref w = (reply 403 (Verdict False None None), w)"
  by (simp add: validate_success_def)

text \<open>
  The file as it stands, with the name \<open>isPaymentAlreadyProcessed\<close> unbound:
  \<open>/verify_payment\<close> sends no response, and a callback that takes the lock ends in
  the 500 of the \<open>catch\<close> block.
\<close>

lemma verify_payment_unbound:
  "verify_payment unbound_helper hmac secret env req w = (None, w)"
  by (simp add: verify_payment_def unbound_helper_def)

lemma payment_callback_unbound:
  assumes "truthy (razorpay_payment_id req)" and "truthy (razorpay_order_id req)"
    and "truthy (razorpay_signature req)"
    and "razorpay_payment_id req \<notin> processingPayments w"
  shows "payment_callback unbound_helper env req w = (reply 500 (Send ''Server error''), w)"
  using assms
  by (simp add: payment_callback_def callback_locked_def callback_try_def unbound_helper_def
      gate_roundtrip)

section \<open>The file as it stands: no run is ever suspended\<close>

lemma callback_arrive_unbound:
  "\<exists>r. callback_arrive Unbound req w = (Finished r, w)"
  by (auto simp: callback_arrive_def finish_def gate_roundtrip)

lemma finished_resume:
  "holder t = None \<Longrightarrow> callback_resume b env t w = (t, w)"
  by (cases t) simp_all

lemma step_unbound:
  assumes "\<forall>t \<in> set ts. holder t = None"
  shows "\<exists>ts'. (\<forall>t \<in> set ts'. holder t = None)
           \<and> (step Unbound hmac secret (w, ts) ev = (w, ts')
              \<or> (\<exists>now ref. ev = Redeem now ref \<and> successTokens w \<noteq> None
                    \<and> step Unbound hmac secret (w, ts) ev = (snd (validate_success now ref w), ts')))"
proof (cases ev)
  case (Callback req)
  obtain r where "callback_arrive Unbound req w = (Finished r, w)"
    using callback_arrive_unbound by blast
  with Callback assms show ?thesis
    by (auto simp: step_def)
next
  case (Resume n env)
  show ?thesis
  proof (cases "n < length ts")
    case True
    with assms have "holder (ts ! n) = None" by simp
    then have "callback_resume Unbound env (ts ! n) w = (ts ! n, w)"
      by (rule finished_resume)
    with Resume True assms show ?thesis
      by (auto simp: step_def)
  next
    case False
    with Resume assms show ?thesis
      by (auto simp: step_def)
  qed
next
  case (Verify env req)
  with assms show ?thesis
    by (auto simp: step_def helper_of_def verify_payment_unbound)
next
  case (Redeem now ref)
  with assms show ?thesis
    by (cases "successTokens w") (auto simp: step_def validate_success_no_store)
qed

lemma run_unbound:
  assumes "\<forall>t \<in> set ts. holder t = None"
  shows "transactions (fst (run Unbound hmac secret (w, ts) evs)) = transactions w
       \<and> processingPayments (fst (run Unbound hmac secret (w, ts) evs)) = processingPayments w
       \<and> (successTokens w = None \<longrightarrow> fst (run Unbound hmac secret (w, ts) evs) = w)
       \<and> (\<forall>t \<in> set (snd (run Unbound hmac secret (w, ts) evs)). holder t = None)"
  using assms
proof (induction evs arbitrary: w ts)
  case Nil
  then show ?case by (simp add: run_def)
next
  case (Cons ev evs)
  from step_unbound [OF Cons.prems, of hmac secret w ev]
  obtain ts' where f: "\<forall>t \<in> set ts'. holder t = None"
    and s: "step Unbound hmac secret (w, ts) ev = (w, ts')
            \<or> (\<exists>now ref. ev = Redeem now ref \<and> successTokens w \<noteq> None
                  \<and> step Unbound hmac secret (w, ts) ev = (snd (validate_success now ref w), ts'))"
    by blast
  from s show ?case
  proof
    assume "step Unbound hmac secret (w, ts) ev = (w, ts')"
    with Cons.IH [OF f, of w] show ?thesis
      by (simp add: run_def)
  next
    assume "\<exists>now ref. ev = Redeem now ref \<and> successTokens w \<noteq> None
                  \<and> step Unbound hmac secret (w, ts) ev = (snd (validate_success now ref w), ts')"
    then obtain now ref where n: "successTokens w \<noteq> None"
      and st: "step Unbound hmac secret (w, ts) ev = (snd (validate_success now ref w), ts')"
      by blast
    with Cons.IH [OF f, of "snd (validate_success now ref w)"] validate_success_keeps [of now ref w]
    show ?thesis
      by (auto simp: run_def)
  qed
qed

section \<open>The suspended runs and the handler\<close>

text \<open>
  Arriving and then resuming to the end, with no other request in between, is the
  handler \<open>payment_callback\<close>.
\<close>

lemma callback_link:
  "callback_complete b env (callback_arrive b req w) =
     (Finished (fst (payment_callback (helper_of b) env req w)),
      snd (payment_callback (helper_of b) env req w))"
proof (cases b)
  case Unbound
  then show ?thesis
    by (simp add: callback_complete_def callback_arrive_def payment_callback_def
        callback_locked_def callback_try_def helper_of_def unbound_helper_def finish_def)
next
  case (Bound h)
  then show ?thesis
    by (simp add: callback_complete_def callback_arrive_def payment_callback_def
        callback_locked_def callback_try_def helper_of_def finish_def success_redirect_def
        saveTransaction_def success_data_def processingPayments_add_def
        processingPayments_delete_def mint_def Let_def
        split: sum.splits option.splits)
qed

lemma resume_lock:
  assumes "holder t = Some p"
  shows "(holder (fst (callback_resume b env t w)) = Some p
          \<and> processingPayments (snd (callback_resume b env t w)) = processingPayments w)
       \<or> (holder (fst (callback_resume b env t w)) = None
          \<and> processingPayments (snd (callback_resume b env t w)) = processingPayments w - {p})"
  using assms
  by (cases t; cases b)
     (auto simp: finish_def processingPayments_delete_def mint_def Let_def
        split: sum.splits option.splits)

lemma holders_update:
  assumes "n < length ts"
  shows "image_mset holder (mset (ts[n := t])) =
           add_mset (holder t) (image_mset holder (mset ts) - {#holder (ts ! n)#})"
proof -
  have "{#ts ! n#} \<subseteq># mset ts"
    using assms by simp
  then have "image_mset holder (mset ts - {#ts ! n#}) =
               image_mset holder (mset ts) - image_mset holder {#ts ! n#}"
    by (rule image_mset_Diff)
  with assms show ?thesis
    by (simp add: mset_update)
qed

lemma arrive_lock:
  "(holder (fst (callback_arrive b req w)) = None
      \<and> processingPayments (snd (callback_arrive b req w)) = processingPayments w)
   \<or> (holder (fst (callback_arrive b req w)) = Some (razorpay_payment_id req)
      \<and> razorpay_payment_id req \<notin> processingPayments w
      \<and> processingPayments (snd (callback_arrive b req w)) =
          insert (razorpay_payment_id req) (processingPayments w))"
  by (cases b)
     (auto simp: callback_arrive_def finish_def processingPayments_add_def
        processingPayments_delete_def)

lemma step_lock:
  assumes "lock_invariant (w, ts)"
  shows "lock_invariant (step b hmac secret (w, ts) ev)"
proof (cases ev)
  case (Callback req)
  obtain t w' where a: "callback_arrive b req w = (t, w')"
    by (cases "callback_arrive b req w")
  with arrive_lock [of b req w] assms Callback show ?thesis
    by (auto simp: step_def lock_invariant_def)
next
  case (Resume n env)
  show ?thesis
  proof (cases "n < length ts")
    case False
    with Resume assms show ?thesis by (simp add: step_def)
  next
    case True
    obtain t w' where r: "callback_resume b env (ts ! n) w = (t, w')"
      by (cases "callback_resume b env (ts ! n) w")
    have st: "step b hmac secret (w, ts) ev = (w', ts[n := t])"
      using Resume True r by (simp add: step_def)
    show ?thesis
    proof (cases "holder (ts ! n)")
      case None
      then have "callback_resume b env (ts ! n) w = (ts ! n, w)"
        by (rule finished_resume)
      with r have "t = ts ! n" and "w' = w" by simp_all
      then have "ts[n := t] = ts" by simp
      with st \<open>w' = w\<close> assms show ?thesis by simp
    next
      case (Some p)
      have m: "holder (ts ! n) \<in># image_mset holder (mset ts)"
        using True by simp
      then have "count (image_mset holder (mset ts)) (Some p) \<ge> 1"
        using Some by simp
      with assms have one: "count (image_mset holder (mset ts)) (Some p) = 1"
        and inp: "p \<in> processingPayments w"
        by (auto simp: lock_invariant_def split: if_splits)
      from resume_lock [OF Some, of b env w] r
      consider "holder t = Some p" and "processingPayments w' = processingPayments w"
        | "holder t = None" and "processingPayments w' = processingPayments w - {p}"
        by auto
      then show ?thesis
      proof cases
        case 1
        with Some m have "image_mset holder (mset (ts[n := t])) = image_mset holder (mset ts)"
          by (simp add: holders_update [OF True])
        with 1 assms st show ?thesis
          by (simp add: lock_invariant_def)
      next
        case 2
        have "count (image_mset holder (mset (ts[n := t]))) (Some q) =
                (if q \<in> processingPayments w' then 1 else 0)" for q
          using 2 Some one assms
          by (auto simp: holders_update [OF True] lock_invariant_def)
        with st show ?thesis
          by (simp add: lock_invariant_def)
      qed
    qed
  qed
next
  case (Verify env req)
  with assms verify_payment_gate [of "helper_of b" hmac secret env req w] show ?thesis
    by (simp add: step_def lock_invariant_def)
next
  case (Redeem now ref)
  with assms validate_success_keeps [of now ref w] show ?thesis
    by (simp add: step_def lock_invariant_def)
qed

lemma run_lock:
  "lock_invariant sys \<Longrightarrow> lock_invariant (run b hmac secret sys evs)"
proof (induction evs arbitrary: sys)
  case Nil
  then show ?case by (simp add: run_def)
next
  case (Cons ev evs)
  obtain w ts where s: "sys = (w, ts)" by (cases sys)
  with Cons.prems have "lock_invariant (step b hmac secret sys ev)"
    using step_lock by blast
  then have "lock_invariant (run b hmac secret (step b hmac secret sys ev) evs)"
    by (rule Cons.IH)
  then show ?case by (simp add: run_def)
qed

lemma locked_iff_held:
  assumes "processingPayments w0 = {}"
  shows "p \<in> processingPayments (fst (run b hmac secret (w0, []) evs)) \<longleftrightarrow>
           (\<exists>t \<in> set (snd (run b hmac secret (w0, []) evs)). holder t = Some p)"
proof -
  let ?sys = "run b hmac secret (w0, []) evs"
  let ?M = "image_mset holder (mset (snd ?sys))"
  have "lock_invariant (w0, [])"
    using assms by (simp add: lock_invariant_def)
  then have "lock_invariant ?sys"
    by (rule run_lock)
  then have c: "count ?M (Some p) = (if p \<in> processingPayments (fst ?sys) then 1 else 0)"
    by (simp add: lock_invariant_def)
  have e: "(\<exists>t \<in> set (snd ?sys). holder t = Some p) \<longleftrightarrow> Some p \<in># ?M"
    by force
  have "Some p \<in># ?M \<longleftrightarrow> 0 < count ?M (Some p)"
    by (simp only: count_greater_zero_iff)
  also have "\<dots> \<longleftrightarrow> p \<in> processingPayments (fst ?sys)"
    by (simp only: c split: if_splits) simp
  finally show ?thesis
    using e by blast
qed

section \<open>C1: at most one SUCCESS row\<close>

text \<open>
  C1, as stated, fails on the file-backed \<open>saveTransaction\<close>: a SUCCESS call for a
  pair whose SUCCESS row is already in \<open>transactions.json\<close> appends a second row.
\<close>

theorem file_ledger_duplicate_success:
  "saveTransaction_file example_data (Rows [example_data]) = Inr (Rows [example_data, example_data])
   \<and> length (file_success_rows (Rows [example_data]) (Str ''order_1'') (Str ''pay_1'')) = 1
   \<and> length (file_success_rows (Rows [example_data, example_data]) (Str ''order_1'') (Str ''pay_1''))
       = 2"
  by (simp add: saveTransaction_file_def file_success_rows_def example_data_def)

text \<open>
  C1, amended to server.js. Whatever callbacks, verifications and redeems arrive after
  the start of the process, and however the runs of the callbacks overlap, the
  transactions sheet stays as it was, so a sheet with at most one SUCCESS row for each
  pair of order id and payment id keeps that property. A call of \<open>saveTransaction\<close>
  with status SUCCESS writes nothing: with the helper unbound it throws before the
  write, and under any binding of the helper it writes a row only after the duplicate
  check has answered false.
\<close>

theorem success_rows_never_added:
  "(d_status d = ''SUCCESS'' \<and> saveTransaction H c delivered now d txs = Inr txs'
      \<and> txs' \<noteq> txs \<longrightarrow> H c txs (d_order_id d) (d_payment_id d) = Inr False)
   \<and> (d_status d = ''SUCCESS'' \<longrightarrow>
        saveTransaction unbound_helper c delivered now d txs = Inl ReferenceError)
   \<and> transactions (fst (run Unbound hmac secret (w0, []) evs)) = transactions w0
   \<and> ((\<forall>o' p. length (success_rows (transactions w0) o' p) \<le> 1) \<longrightarrow>
        (\<forall>o' p. length (success_rows
            (transactions (fst (run Unbound hmac secret (w0, []) evs))) o' p) \<le> 1))"
proof (intro conjI impI)
  assume "d_status d = ''SUCCESS'' \<and> saveTransaction H c delivered now d txs = Inr txs'
      \<and> txs' \<noteq> txs"
  then show "H c txs (d_order_id d) (d_payment_id d) = Inr False"
    by (auto simp: saveTransaction_def split: sum.splits if_splits)
next
  assume "d_status d = ''SUCCESS''"
  then show "saveTransaction unbound_helper c delivered now d txs = Inl ReferenceError"
    by (simp add: saveTransaction_def unbound_helper_def)
next
  show t: "transactions (fst (run Unbound hmac secret (w0, []) evs)) = transactions w0"
    using run_unbound [of "[]" hmac secret w0 evs] by simp
  assume "\<forall>o' p. length (success_rows (transactions w0) o' p) \<le> 1"
  with t show "\<forall>o' p. length (success_rows
            (transactions (fst (run Unbound hmac secret (w0, []) evs))) o' p) \<le> 1"
    by simp
qed

theorem success_rows_never_added_witness:
  "d_status (success_data (Str ''order_1'') (Str ''pay_1'') example_payment) = ''SUCCESS''
   \<and> saveTransaction unbound_helper True True 10
        (success_data (Str ''order_1'') (Str ''pay_1'') example_payment) (transactions paid_world)
       = Inl ReferenceError
   \<and> success_rows (transactions paid_world) ''order_1'' ''pay_1'' = [example_row]
   \<and> success_rows (transactions (fst (run Unbound example_hmac ''s3cret'' (paid_world, [])
        [Callback example_callback, Callback example_callback, Resume 0 example_callback_env,
         Verify example_verify_env example_verify])))
        ''order_1'' ''pay_1'' = [example_row]"
proof -
  let ?d = "success_data (Str ''order_1'') (Str ''pay_1'') example_payment"
  let ?evs = "[Callback example_callback, Callback example_callback,
               Resume 0 example_callback_env, Verify example_verify_env example_verify]"
  have s: "d_status ?d = ''SUCCESS''"
    by (simp add: success_data_def)
  have r: "success_rows (transactions paid_world) ''order_1'' ''pay_1'' = [example_row]"
    by (simp add: success_rows_def example_defs)
  note T = success_rows_never_added [of ?d unbound_helper True True 10 "transactions paid_world"
      "transactions paid_world" example_hmac "''s3cret''" paid_world ?evs]
  from T s have a: "saveTransaction unbound_helper True True 10 ?d (transactions paid_world)
      = Inl ReferenceError"
    by blast
  from T have "transactions (fst (run Unbound example_hmac ''s3cret'' (paid_world, []) ?evs))
      = transactions paid_world"
    by blast
  with s a r show ?thesis
    by simp
qed

section \<open>C2: the signature check\<close>

text \<open>
  C2. The computed signature is the keyed hash, in hexadecimal, of the order id, a
  bar and the payment id under the secret, a function of these three alone; the check
  succeeds exactly when the received signature is that string. Both
  \<open>/verify_payment\<close> handlers answer ``Signature mismatch'' exactly when it is not
  (in server.js, once the duplicate check has answered false).
\<close>

theorem signature_check:
  "generated_signature hmac secret oid pid = hmac secret (to_string oid @ ''|'' @ to_string pid)
   \<and> (signatureMatched hmac secret oid pid sg \<longleftrightarrow>
        sg = Str (hmac secret (to_string oid @ ''|'' @ to_string pid)))
   \<and> generated_signature hmac ''s3cret'' (Str ''order_1'') (Str ''pay_1'') =
        hmac ''s3cret'' ''order_1|pay_1''
   \<and> (H (ve_check_delivered env) (transactions w) (order_id req) (payment_id req) = Inr False \<longrightarrow>
        (fst (verify_payment H hmac secret env req w) =
           Some (reply 200 (Verdict False (Some ''Signature mismatch'') None))
         \<longleftrightarrow> signature req \<noteq>
               Str (hmac secret (to_string (order_id req) @ ''|'' @ to_string (payment_id req)))))
   \<and> (fst (verify_payment_file hmac secret status_api now req f) =
           reply 200 (Verdict False (Some ''Signature mismatch'') None)
         \<longleftrightarrow> signature req \<noteq>
               Str (hmac secret (to_string (order_id req) @ ''|'' @ to_string (payment_id req))))"
  by (auto simp: generated_signature_def signatureMatched_def verify_payment_def
      verify_payment_file_def Let_def reply_def split: sum.splits)

theorem signature_check_witness:
  "example_helper True (transactions empty_world) (order_id example_verify)
       (payment_id example_verify) = Inr False
   \<and> signatureMatched example_hmac ''s3cret'' (Str ''order_1'') (Str ''pay_1'')
        (Str ''s3cret:order_1|pay_1'')
   \<and> fst (verify_payment example_helper example_hmac ''s3cret'' example_verify_env
        (example_verify\<lparr>signature := Str ''forged''\<rparr>) empty_world) =
        Some (reply 200 (Verdict False (Some ''Signature mismatch'') None))"
proof -
  have h: "example_helper (ve_check_delivered example_verify_env)
       (transactions empty_world) (order_id (example_verify\<lparr>signature := Str ''forged''\<rparr>))
       (payment_id (example_verify\<lparr>signature := Str ''forged''\<rparr>)) = Inr False"
    by (simp add: example_defs)
  have g: "example_hmac ''s3cret'' ''order_1|pay_1'' = ''s3cret:order_1|pay_1''"
    by (simp add: example_defs)
  show ?thesis
    using h g
      signature_check [of example_hmac "''s3cret''" "Str ''order_1''" "Str ''pay_1''"
        "Str ''s3cret:order_1|pay_1''" example_helper example_verify_env empty_world
        "example_verify\<lparr>signature := Str ''forged''\<rparr>"]
    by (simp add: example_defs)
qed

section \<open>C3: a payment that is not captured\<close>

lemma verify_payment_not_captured:
  assumes "H (ve_check_delivered env) (transactions w) (order_id req) (payment_id req) = Inr False"
    and "signatureMatched hmac secret (order_id req) (payment_id req) (signature req)"
    and "ve_status_api env = Inr p" and "pay_status p \<noteq> ''captured''"
  shows "fst (verify_payment H hmac secret env req w) =
           Some (reply 200 (Verdict False (Some ''Payment not captured'') None))"
  using assms by (simp add: verify_payment_def Let_def)

lemma verify_payment_never_valid:
  assumes "ve_status_api env = Inr p" and "pay_status p \<noteq> ''captured''"
    and "fst (verify_payment H hmac secret env req w) = Some r"
    and "content r = Verdict v x y"
  shows "\<not> v"
  using assms
  by (auto simp: verify_payment_def Let_def reply_def split: sum.splits if_splits)

text \<open>
  C3. When the status inquiry answers with a status other than \<open>captured\<close>, an
  attempt that reached it (duplicate check false, signature matched) is answered with
  \<open>valid: false\<close>, ``Payment not captured'', and the transactions are untouched; no
  run of \<open>/verify_payment\<close> with such an answer sends \<open>valid: true\<close>. A callback whose
  verification request got that answer does not redirect to the success page and
  leaves the whole world unchanged. The file-backed handler answers the same and
  leaves \<open>transactions.json\<close> as it is.
\<close>

theorem not_captured_rejected:
  "(H (ve_check_delivered env) (transactions w) (order_id req) (payment_id req) = Inr False
      \<and> signatureMatched hmac secret (order_id req) (payment_id req) (signature req)
      \<and> ve_status_api env = Inr p \<and> pay_status p \<noteq> ''captured'' \<longrightarrow>
      fst (verify_payment H hmac secret env req w) =
        Some (reply 200 (Verdict False (Some ''Payment not captured'') None))
      \<and> transactions (snd (verify_payment H hmac secret env req w)) = transactions w)
   \<and> (ve_status_api env = Inr p \<and> pay_status p \<noteq> ''captured'' \<longrightarrow>
        (\<forall>r v x y. fst (verify_payment H hmac secret env req w) = Some r
            \<and> content r = Verdict v x y \<longrightarrow> \<not> v))
   \<and> (ce_verify cenv =
         axios_result (reply 200 (Verdict False (Some ''Payment not captured'') None)) \<longrightarrow>
        code (fst (payment_callback H cenv creq w)) \<noteq> 302
        \<and> snd (payment_callback H cenv creq w) = w)
   \<and> (Str (generated_signature hmac secret (order_id req) (payment_id req)) = signature req
        \<and> status_api = Inr p \<and> pay_status p \<noteq> ''captured'' \<longrightarrow>
        verify_payment_file hmac secret status_api now req f =
          (reply 200 (Verdict False (Some ''Payment not captured'') None), f))"
proof (intro conjI impI allI)
  assume a: "H (ve_check_delivered env) (transactions w) (order_id req) (payment_id req) = Inr False
      \<and> signatureMatched hmac secret (order_id req) (payment_id req) (signature req)
      \<and> ve_status_api env = Inr p \<and> pay_status p \<noteq> ''captured''"
  then show "fst (verify_payment H hmac secret env req w) =
        Some (reply 200 (Verdict False (Some ''Payment not captured'') None))"
    by (simp add: verify_payment_not_captured)
  show "transactions (snd (verify_payment H hmac secret env req w)) = transactions w"
    by (rule verify_payment_transactions)
next
  fix r v x y
  assume "ve_status_api env = Inr p \<and> pay_status p \<noteq> ''captured''"
    and "fst (verify_payment H hmac secret env req w) = Some r \<and> content r = Verdict v x y"
  then show "\<not> v"
    using verify_payment_never_valid [of env p H hmac secret req w r v x y] by simp
next
  assume c: "ce_verify cenv =
         axios_result (reply 200 (Verdict False (Some ''Payment not captured'') None))"
  then have v: "ce_verify cenv = Inr \<lparr>vd_valid = False, vd_payment = None\<rparr>"
    by (simp add: axios_result_def reply_def)
  then show n: "code (fst (payment_callback H cenv creq w)) \<noteq> 302"
    by (rule payment_callback_invalid) simp
  then show "snd (payment_callback H cenv creq w) = w"
    by (rule payment_callback_unsuccessful)
next
  assume "Str (generated_signature hmac secret (order_id req) (payment_id req)) = signature req
        \<and> status_api = Inr p \<and> pay_status p \<noteq> ''captured''"
  then show "verify_payment_file hmac secret status_api now req f =
          (reply 200 (Verdict False (Some ''Payment not captured'') None), f)"
    by (simp add: verify_payment_file_def)
qed

theorem not_captured_rejected_witness:
  "example_helper True (transactions empty_world) (Str ''order_1'') (Str ''pay_1'')
     = Inr False
   \<and> signatureMatched example_hmac ''s3cret'' (Str ''order_1'') (Str ''pay_1'')
        (signature example_verify)
   \<and> pay_status example_pending \<noteq> ''captured''
   \<and> fst (verify_payment example_helper example_hmac ''s3cret''
        (example_verify_env\<lparr>ve_status_api := Inr example_pending\<rparr>) example_verify empty_world)
       = Some (reply 200 (Verdict False (Some ''Payment not captured'') None))
   \<and> snd (payment_callback example_helper
        (example_callback_env\<lparr>ce_verify :=
           axios_result (reply 200 (Verdict False (Some ''Payment not captured'') None))\<rparr>)
        example_callback empty_world) = empty_world"
proof -
  let ?env = "example_verify_env\<lparr>ve_status_api := Inr example_pending\<rparr>"
  let ?cenv = "example_callback_env\<lparr>ce_verify :=
           axios_result (reply 200 (Verdict False (Some ''Payment not captured'') None))\<rparr>"
  have h: "example_helper True (transactions empty_world) (Str ''order_1'')
             (Str ''pay_1'') = Inr False"
    by (simp add: example_defs)
  have m: "signatureMatched example_hmac ''s3cret'' (Str ''order_1'') (Str ''pay_1'')
             (signature example_verify)"
    by (simp add: signatureMatched_def generated_signature_def example_defs)
  have p: "pay_status example_pending \<noteq> ''captured''"
    by (simp add: example_defs)
  have e: "ve_check_delivered ?env = True" "order_id example_verify = Str ''order_1''"
    "payment_id example_verify = Str ''pay_1''" "ve_status_api ?env = Inr example_pending"
    "ce_verify ?cenv = axios_result (reply 200 (Verdict False (Some ''Payment not captured'') None))"
    by (simp_all add: example_defs)
  show ?thesis
    using h m p e
      not_captured_rejected [of example_helper ?env empty_world example_verify
        example_hmac "''s3cret''" example_pending ?cenv example_callback]
    by simp
qed

section \<open>C4: a status inquiry that fails\<close>

text \<open>
  C4. When the status inquiry throws, an attempt that reached it is answered with
  status 500, ``Status API failed'', which is neither of the two rejections; the
  transactions, the lock set and the token store are as before, and a retry of the
  same request on the resulting world, with the gateway answering \<open>captured\<close> and the
  duplicate check answering on the same transactions as before, gets \<open>valid: true\<close>.
  A callback whose verification request got the 500 does not redirect to the success
  page and leaves the world unchanged, its lock released; the file-backed handler
  answers 500 and leaves the file as it is, and its retry with a captured payment gets
  \<open>valid: true\<close> when the file can be read.
\<close>

theorem status_failure_errored:
  assumes "H (ve_check_delivered env) (transactions w) (order_id req) (payment_id req) = Inr False"
    and "signatureMatched hmac secret (order_id req) (payment_id req) (signature req)"
    and "ve_status_api env = Inl err"
  shows "fst (verify_payment H hmac secret env req w) =
           Some (reply 500 (Verdict False (Some ''Status API failed'') None))
       \<and> reply 500 (Verdict False (Some ''Status API failed'') None) \<noteq>
           reply 200 (Verdict False (Some ''Payment not captured'') None)
       \<and> reply 500 (Verdict False (Some ''Status API failed'') None) \<noteq>
           reply 200 (Verdict False (Some ''Signature mismatch'') None)
       \<and> transactions (snd (verify_payment H hmac secret env req w)) = transactions w
       \<and> processingPayments (snd (verify_payment H hmac secret env req w)) = processingPayments w
       \<and> successTokens (snd (verify_payment H hmac secret env req w)) = successTokens w
       \<and> (\<forall>env2 p. ve_status_api env2 = Inr p \<and> pay_status p = ''captured''
             \<and> H (ve_check_delivered env2) (transactions w) (order_id req) (payment_id req)
                 = Inr False \<longrightarrow>
            fst (verify_payment H hmac secret env2 req (snd (verify_payment H hmac secret env req w)))
              = Some (reply 200 (Verdict True None (Some p))))
       \<and> (ce_verify cenv =
             axios_result (reply 500 (Verdict False (Some ''Status API failed'') None)) \<longrightarrow>
            code (fst (payment_callback H cenv creq w)) \<noteq> 302
            \<and> snd (payment_callback H cenv creq w) = w)
       \<and> verify_payment_file hmac secret (Inl err) now req f =
            (reply 500 (ErrorJson ''Verification failed''), f)
       \<and> (f \<noteq> Unparsable \<and> pay_status captured = ''captured'' \<longrightarrow>
            fst (verify_payment_file hmac secret (Inr captured) later req
                   (snd (verify_payment_file hmac secret (Inl err) now req f))) =
              reply 200 (Verdict True None (Some captured)))"
proof -
  let ?w' = "snd (verify_payment H hmac secret env req w)"
  have t: "transactions ?w' = transactions w"
    by (rule verify_payment_transactions)
  have r: "fst (verify_payment H hmac secret env req w) =
           Some (reply 500 (Verdict False (Some ''Status API failed'') None))"
    using assms by (simp add: verify_payment_def Let_def)
  have retry: "fst (verify_payment H hmac secret env2 req ?w') =
                 Some (reply 200 (Verdict True None (Some p)))"
    if "ve_status_api env2 = Inr p" and "pay_status p = ''captured''"
      and "H (ve_check_delivered env2) (transactions w) (order_id req) (payment_id req) = Inr False"
    for env2 p
    using that assms(2) t by (simp add: verify_payment_def Let_def)
  have cb: "code (fst (payment_callback H cenv creq w)) \<noteq> 302
            \<and> snd (payment_callback H cenv creq w) = w"
    if "ce_verify cenv =
          axios_result (reply 500 (Verdict False (Some ''Status API failed'') None))"
  proof -
    from that have "ce_verify cenv = Inl (HttpError 500)"
      by (simp add: axios_result_def reply_def)
    then have "code (fst (payment_callback H cenv creq w)) \<noteq> 302"
      by (rule payment_callback_throws)
    then show ?thesis
      by (simp add: payment_callback_unsuccessful)
  qed
  have fl: "verify_payment_file hmac secret (Inl err) now req f =
            (reply 500 (ErrorJson ''Verification failed''), f)"
    using assms(2) by (simp add: verify_payment_file_def signatureMatched_def)
  have fr: "fst (verify_payment_file hmac secret (Inr captured) later req
                   (snd (verify_payment_file hmac secret (Inl err) now req f))) =
              reply 200 (Verdict True None (Some captured))"
    if "f \<noteq> Unparsable" and "pay_status captured = ''captured''"
    using that assms(2)
    by (cases f) (simp_all add: verify_payment_file_def signatureMatched_def
        saveTransaction_file_def)
  show ?thesis
    using r t verify_payment_gate [of H hmac secret env req w] retry cb fl fr
    by (simp add: reply_def)
qed

theorem status_failure_errored_witness:
  "example_helper True (transactions empty_world) (Str ''order_1'') (Str ''pay_1'')
     = Inr False
   \<and> signatureMatched example_hmac ''s3cret'' (Str ''order_1'') (Str ''pay_1'')
        (signature example_verify)
   \<and> fst (verify_payment example_helper example_hmac ''s3cret''
        (example_verify_env\<lparr>ve_status_api := Inl NetworkError\<rparr>) example_verify empty_world)
       = Some (reply 500 (Verdict False (Some ''Status API failed'') None))
   \<and> fst (verify_payment example_helper example_hmac ''s3cret'' example_verify_env
        example_verify
        (snd (verify_payment example_helper example_hmac ''s3cret''
           (example_verify_env\<lparr>ve_status_api := Inl NetworkError\<rparr>) example_verify empty_world)))
       = Some (reply 200 (Verdict True None (Some example_payment)))"
proof -
  let ?env = "example_verify_env\<lparr>ve_status_api := Inl NetworkError\<rparr>"
  have h: "example_helper True (transactions empty_world) (Str ''order_1'')
             (Str ''pay_1'') = Inr False"
    by (simp add: example_defs)
  have m: "signatureMatched example_hmac ''s3cret'' (Str ''order_1'') (Str ''pay_1'')
             (signature example_verify)"
    by (simp add: signatureMatched_def generated_signature_def example_defs)
  have h1: "example_helper (ve_check_delivered ?env) (transactions empty_world)
              (order_id example_verify) (payment_id example_verify) = Inr False"
    using h by (simp add: example_defs)
  have m1: "signatureMatched example_hmac ''s3cret'' (order_id example_verify)
              (payment_id example_verify) (signature example_verify)"
    using m by (simp add: example_defs)
  have s1: "ve_status_api ?env = Inl NetworkError"
    by simp
  note T = status_failure_errored [where H = example_helper and env = ?env
      and w = empty_world and req = example_verify and hmac = example_hmac
      and secret = "''s3cret''", OF h1 m1 s1]
  have r2: "ve_status_api example_verify_env = Inr example_payment
            \<and> pay_status example_payment = ''captured''
            \<and> example_helper (ve_check_delivered example_verify_env)
                 (transactions empty_world) (order_id example_verify) (payment_id example_verify)
               = Inr False"
    using h by (simp add: example_defs)
  from T have "fst (verify_payment example_helper example_hmac ''s3cret'' ?env
        example_verify empty_world)
       = Some (reply 500 (Verdict False (Some ''Status API failed'') None))"
    by blast
  moreover from T r2 have "fst (verify_payment example_helper example_hmac ''s3cret''
        example_verify_env example_verify
        (snd (verify_payment example_helper example_hmac ''s3cret'' ?env
           example_verify empty_world)))
       = Some (reply 200 (Verdict True None (Some example_payment)))"
    by blast
  ultimately show ?thesis
    using h m by blast
qed

section \<open>C5: the audit trail\<close>

text \<open>
  C5, as stated, fails: a callback without a signature is answered with 400 and no row
  is written to either sheet.
\<close>

theorem unlogged_attempt:
  "fst (payment_callback unbound_helper example_callback_env
     (example_callback\<lparr>body_razorpay_signature := Undefined\<rparr>) empty_world) =
     reply 400 (Send ''Missing parameters'')
   \<and> audit_entries (snd (payment_callback unbound_helper example_callback_env
       (example_callback\<lparr>body_razorpay_signature := Undefined\<rparr>) empty_world)) =
     audit_entries empty_world"
  by (simp add: payment_callback_def razorpay_signature_def js_or_def example_defs)

text \<open>
  C5, amended. A run of \<open>/verify_payment\<close> whose duplicate check answers false sends
  the SIGNATURE_VERIFICATION row before it responds, and the row is in the
  verification log when the sink takes the request. A run whose duplicate check
  answers true writes nothing, and a callback that does not end in the success
  redirect writes nothing itself.
\<close>

theorem audit_trail_of_verification:
  "(H (ve_check_delivered env) (transactions w) (order_id req) (payment_id req) = Inr False
      \<and> ve_log1_delivered env \<longrightarrow>
      (\<exists>rest. verification_logs (snd (verify_payment H hmac secret env req w)) =
         verification_logs w @
           verification_row (ve_log1_time env)
             (signature_log req
                (signatureMatched hmac secret (order_id req) (payment_id req) (signature req)))
           # rest)
      \<and> audit_entries w < audit_entries (snd (verify_payment H hmac secret env req w)))
   \<and> (H (ve_check_delivered env) (transactions w) (order_id req) (payment_id req) = Inr True \<longrightarrow>
        snd (verify_payment H hmac secret env req w) = w)
   \<and> (code (fst (payment_callback H cenv creq w)) \<noteq> 302 \<longrightarrow>
        snd (payment_callback H cenv creq w) = w)"
proof (intro conjI impI)
  assume a: "H (ve_check_delivered env) (transactions w) (order_id req) (payment_id req) = Inr False
      \<and> ve_log1_delivered env"
  then show e: "\<exists>rest. verification_logs (snd (verify_payment H hmac secret env req w)) =
         verification_logs w @
           verification_row (ve_log1_time env)
             (signature_log req
                (signatureMatched hmac secret (order_id req) (payment_id req) (signature req)))
           # rest"
    by (auto simp: verify_payment_def log_row_def saveVerificationLog_def logToGoogleSheet_def
        sheet_append_def Let_def split: sum.splits)
  then show "audit_entries w < audit_entries (snd (verify_payment H hmac secret env req w))"
    by (auto simp: audit_entries_def verify_payment_transactions)
next
  assume "H (ve_check_delivered env) (transactions w) (order_id req) (payment_id req) = Inr True"
  then show "snd (verify_payment H hmac secret env req w) = w"
    by (simp add: verify_payment_def)
next
  assume "code (fst (payment_callback H cenv creq w)) \<noteq> 302"
  then show "snd (payment_callback H cenv creq w) = w"
    by (rule payment_callback_unsuccessful)
qed

theorem audit_trail_of_verification_witness:
  "example_helper (ve_check_delivered example_verify_env) (transactions empty_world)
     (order_id example_verify) (payment_id example_verify) = Inr False
   \<and> ve_log1_delivered example_verify_env
   \<and> audit_entries empty_world <
       audit_entries (snd (verify_payment example_helper example_hmac ''s3cret''
         example_verify_env example_verify empty_world))
   \<and> example_helper (ve_check_delivered example_verify_env) (transactions paid_world)
       (order_id example_verify) (payment_id example_verify) = Inr True
   \<and> snd (verify_payment example_helper example_hmac ''s3cret''
         example_verify_env example_verify paid_world) = paid_world"
proof -
  have h: "example_helper (ve_check_delivered example_verify_env)
     (transactions empty_world) (order_id example_verify) (payment_id example_verify) = Inr False"
    by (simp add: example_defs)
  have d: "ve_log1_delivered example_verify_env"
    by (simp add: example_defs)
  have k: "example_helper (ve_check_delivered example_verify_env)
     (transactions paid_world) (order_id example_verify) (payment_id example_verify) = Inr True"
    by (simp add: or_empty_def example_defs)
  from h d
    audit_trail_of_verification [of example_helper example_verify_env empty_world
      example_verify example_hmac "''s3cret''"]
  have a: "audit_entries empty_world <
       audit_entries (snd (verify_payment example_helper example_hmac ''s3cret''
         example_verify_env example_verify empty_world))"
    by blast
  from k
    audit_trail_of_verification [of example_helper example_verify_env paid_world
      example_verify example_hmac "''s3cret''"]
  have b: "snd (verify_payment example_helper example_hmac ''s3cret''
         example_verify_env example_verify paid_world) = paid_world"
    by blast
  from h d a k b show ?thesis
    by blast
qed

section \<open>C6: the success verdict and the commit\<close>



section \<open>C7: the duplicate verdict\<close>

text \<open>
  C7. In server.js as it stands an attempt for a pair that the ledger records is not
  answered with a duplicate verdict: a callback that carries its parameters and finds
  the lock free ends in 500 ``Server error'', since the duplicate check of line 449
  throws, and \<open>/verify_payment\<close> sends no response, since the check of line 155
  throws outside every \<open>try\<close>. Both leave the world as it was.
\<close>

theorem duplicate_not_answered:
  "(truthy (razorpay_payment_id creq) \<and> truthy (razorpay_order_id creq)
      \<and> truthy (razorpay_signature creq)
      \<and> razorpay_payment_id creq \<notin> processingPayments w \<longrightarrow>
      payment_callback unbound_helper env creq w = (reply 500 (Send ''Server error''), w))
   \<and> verify_payment unbound_helper hmac secret venv req w = (None, w)"
  by (simp add: payment_callback_unbound verify_payment_unbound)

theorem duplicate_not_answered_witness:
  "success_rows (transactions paid_world) ''order_1'' ''pay_1'' = [example_row]
   \<and> truthy (razorpay_payment_id example_callback) \<and> truthy (razorpay_order_id example_callback)
   \<and> truthy (razorpay_signature example_callback)
   \<and> razorpay_payment_id example_callback \<notin> processingPayments paid_world
   \<and> payment_callback unbound_helper example_callback_env example_callback paid_world =
       (reply 500 (Send ''Server error''), paid_world)
   \<and> verify_payment unbound_helper example_hmac ''s3cret'' example_verify_env example_verify
       paid_world = (None, paid_world)"
proof -
  have r: "success_rows (transactions paid_world) ''order_1'' ''pay_1'' = [example_row]"
    by (simp add: success_rows_def example_defs)
  have p: "truthy (razorpay_payment_id example_callback)"
    and q: "truthy (razorpay_order_id example_callback)"
    and s: "truthy (razorpay_signature example_callback)"
    by (simp_all add: razorpay_payment_id_def razorpay_order_id_def razorpay_signature_def
        js_or_def example_defs)
  have n: "razorpay_payment_id example_callback \<notin> processingPayments paid_world"
    by (simp add: example_defs)
  note T = duplicate_not_answered [of example_callback paid_world example_callback_env
      example_hmac "''s3cret''" example_verify_env example_verify]
  from T p q s n have a: "payment_callback unbound_helper example_callback_env example_callback
      paid_world = (reply 500 (Send ''Server error''), paid_world)"
    by blast
  from T have b: "verify_payment unbound_helper example_hmac ''s3cret'' example_verify_env
      example_verify paid_world = (None, paid_world)"
    by blast
  from r p q s n a b show ?thesis
    by blast
qed

section \<open>C8: the concurrency gate\<close>

text \<open>
  C8. For a callback that carries its three parameters:
  \<^item> when its payment id is in the lock set, the run ends at once with 409 ``Duplicate
    request blocked'' and the world, so the lock of the holder, is as before;
  \<^item> when the id is not in the set, the run takes the lock: under a bound helper it is
    suspended at the duplicate check with the id added to the set, and a second
    callback for that id which arrives now is answered with the 409 and changes
    nothing; with the helper unbound it ends with 500 in the same run of the event
    loop, the lock taken and released;
  \<^item> a resumption of a suspended run either suspends it again, holding the same id
    with the lock set unchanged, or ends it with the id removed from the lock set; the
    duplicate, rejected, errored and committed exits are of the second kind;
  \<^item> arriving and resuming to the end is the handler \<open>payment_callback\<close>;
  \<^item> in every state reached from a start with an empty lock set, under any events, a
    payment id is in the lock set exactly when a suspended run holds it: no id stays
    locked after its run has finished.
\<close>

theorem gate_discipline:
  assumes "truthy (razorpay_payment_id req)" and "truthy (razorpay_order_id req)"
    and "truthy (razorpay_signature req)"
  shows "(razorpay_payment_id req \<in> processingPayments w \<longrightarrow>
            callback_arrive b req w =
              (Finished (reply 409 (Send ''Duplicate request blocked'')), w))
       \<and> (razorpay_payment_id req \<notin> processingPayments w \<longrightarrow>
            callback_arrive (Bound h) req w =
              (AtCheck (razorpay_payment_id req) (razorpay_order_id req),
               processingPayments_add (razorpay_payment_id req) w)
            \<and> razorpay_payment_id req \<in>
                processingPayments (snd (callback_arrive (Bound h) req w))
            \<and> callback_arrive b req (snd (callback_arrive (Bound h) req w)) =
                (Finished (reply 409 (Send ''Duplicate request blocked'')),
                 snd (callback_arrive (Bound h) req w))
            \<and> callback_arrive Unbound req w = (Finished (reply 500 (Send ''Server error'')), w))
       \<and> (holder t = Some p \<longrightarrow>
            (holder (fst (callback_resume b env t w1)) = Some p
               \<and> processingPayments (snd (callback_resume b env t w1)) = processingPayments w1)
            \<or> (holder (fst (callback_resume b env t w1)) = None
               \<and> processingPayments (snd (callback_resume b env t w1)) =
                   processingPayments w1 - {p}))
       \<and> (helper_of b (ce_check_delivered env) (transactions w1) o1 p = Inr True \<longrightarrow>
            callback_resume b env (AtCheck p o1) w1 =
              (Finished (reply 409 (Send ''Duplicate payment ignored'')),
               processingPayments_delete p w1))
       \<and> (ce_verify env = Inr vd \<and> \<not> vd_valid vd \<longrightarrow>
            callback_resume b env (AtVerify p o1) w1 =
              (Finished (reply 400 (Send ''Verification failed'')),
               processingPayments_delete p w1))
       \<and> (ce_verify env = Inl err \<longrightarrow>
            callback_resume b env (AtVerify p o1) w1 =
              (Finished (reply 500 (Send ''Server error'')), processingPayments_delete p w1))
       \<and> fst (callback_resume b env (AtWrite p o1 pay) w1) = Finished (success_redirect env)
       \<and> processingPayments (snd (callback_resume b env (AtWrite p o1 pay) w1)) =
           processingPayments w1 - {p}
       \<and> callback_complete b env (callback_arrive b req w) =
           (Finished (fst (payment_callback (helper_of b) env req w)),
            snd (payment_callback (helper_of b) env req w))
       \<and> (processingPayments w0 = {} \<longrightarrow>
            (q \<in> processingPayments (fst (run b hmac secret (w0, []) evs)) \<longleftrightarrow>
               (\<exists>t' \<in> set (snd (run b hmac secret (w0, []) evs)). holder t' = Some q)))"
proof -
  let ?pid = "razorpay_payment_id req"
  have busy: "callback_arrive b' req w' =
                (Finished (reply 409 (Send ''Duplicate request blocked'')), w')"
    if "?pid \<in> processingPayments w'" for b' w'
    using that assms by (simp add: callback_arrive_def)
  have free: "callback_arrive (Bound h) req w =
                (AtCheck ?pid (razorpay_order_id req), processingPayments_add ?pid w)"
    if "?pid \<notin> processingPayments w"
    using that assms by (simp add: callback_arrive_def)
  have held: "?pid \<in> processingPayments (processingPayments_add ?pid w)"
    by (simp add: processingPayments_add_def)
  have ship: "callback_arrive Unbound req w = (Finished (reply 500 (Send ''Server error'')), w)"
    if "?pid \<notin> processingPayments w"
    using that assms by (simp add: callback_arrive_def finish_def gate_roundtrip)
  have exits:
    "helper_of b (ce_check_delivered env) (transactions w1) o1 p = Inr True \<longrightarrow>
       callback_resume b env (AtCheck p o1) w1 =
         (Finished (reply 409 (Send ''Duplicate payment ignored'')),
          processingPayments_delete p w1)"
    "ce_verify env = Inr vd \<and> \<not> vd_valid vd \<longrightarrow>
       callback_resume b env (AtVerify p o1) w1 =
         (Finished (reply 400 (Send ''Verification failed'')), processingPayments_delete p w1)"
    "ce_verify env = Inl err \<longrightarrow>
       callback_resume b env (AtVerify p o1) w1 =
         (Finished (reply 500 (Send ''Server error'')), processingPayments_delete p w1)"
    "fst (callback_resume b env (AtWrite p o1 pay) w1) = Finished (success_redirect env)"
    "processingPayments (snd (callback_resume b env (AtWrite p o1 pay) w1)) =
       processingPayments w1 - {p}"
    by (simp_all add: finish_def processingPayments_delete_def mint_def Let_def)
  show ?thesis
    using busy free held ship exits resume_lock [of t p b env w1] callback_link [of b env req w]
      locked_iff_held [of w0 q b hmac secret evs]
    by simp
qed

theorem gate_discipline_witness:
  "truthy (razorpay_payment_id example_callback) \<and> truthy (razorpay_order_id example_callback)
   \<and> truthy (razorpay_signature example_callback)
   \<and> razorpay_payment_id example_callback \<notin> processingPayments empty_world
   \<and> callback_arrive (Bound example_helper) example_callback empty_world =
       (AtCheck (razorpay_payment_id example_callback) (razorpay_order_id example_callback),
        processingPayments_add (razorpay_payment_id example_callback) empty_world)
   \<and> callback_arrive (Bound example_helper) example_callback
       (snd (callback_arrive (Bound example_helper) example_callback empty_world)) =
       (Finished (reply 409 (Send ''Duplicate request blocked'')),
        snd (callback_arrive (Bound example_helper) example_callback empty_world))
   \<and> processingPayments (snd (callback_complete (Bound example_helper) example_callback_env
       (callback_arrive (Bound example_helper) example_callback empty_world))) = {}"
proof -
  have p: "truthy (razorpay_payment_id example_callback)"
    and q: "truthy (razorpay_order_id example_callback)"
    and r: "truthy (razorpay_signature example_callback)"
    by (simp_all add: razorpay_payment_id_def razorpay_order_id_def razorpay_signature_def
        js_or_def example_defs)
  have n: "razorpay_payment_id example_callback \<notin> processingPayments empty_world"
    by (simp add: example_defs)
  note T = gate_discipline [OF p q r, where w = empty_world and b = "Bound example_helper"
      and h = example_helper and env = example_callback_env]
  from T n have a: "callback_arrive (Bound example_helper) example_callback empty_world =
       (AtCheck (razorpay_payment_id example_callback) (razorpay_order_id example_callback),
        processingPayments_add (razorpay_payment_id example_callback) empty_world)"
    by blast
  from T n have b: "callback_arrive (Bound example_helper) example_callback
       (snd (callback_arrive (Bound example_helper) example_callback empty_world)) =
       (Finished (reply 409 (Send ''Duplicate request blocked'')),
        snd (callback_arrive (Bound example_helper) example_callback empty_world))"
    by blast
  from T have "callback_complete (Bound example_helper) example_callback_env
       (callback_arrive (Bound example_helper) example_callback empty_world) =
       (Finished (fst (payment_callback (helper_of (Bound example_helper)) example_callback_env
           example_callback empty_world)),
        snd (payment_callback (helper_of (Bound example_helper)) example_callback_env
           example_callback empty_world))"
    by blast
  moreover have "processingPayments (snd (payment_callback (helper_of (Bound example_helper))
      example_callback_env example_callback empty_world)) = {}"
    by (simp add: payment_callback_gate example_defs)
  ultimately have c: "processingPayments (snd (callback_complete (Bound example_helper)
      example_callback_env
      (callback_arrive (Bound example_helper) example_callback empty_world))) = {}"
    by simp
  from p q r n a b c show ?thesis
    by blast
qed

section \<open>C9 and C10: the token store\<close>

lemma hex_token_not_prototype_key: "is_hex_token s \<Longrightarrow> s \<notin> set Object_prototype_keys"
  by (auto simp: is_hex_token_def Object_prototype_keys_def)

lemma hex_token_truthy: "is_hex_token s \<Longrightarrow> truthy (Str s)"
  by (auto simp: is_hex_token_def)

text \<open>
  C9. For a token of the form the callback mints that is in the store: a redeem not
  later than its expiry returns the stored order id, payment id and amount, a redeem
  after its expiry returns 403; either way the redeem removes the token, and every
  later redeem of it returns 403 and changes nothing. The callback stores a token with
  an expiry of 5 minutes (300000 ms) after the time of minting.
\<close>

theorem success_token_single_use:
  assumes "is_hex_token tok" and "successTokens w = Some store" and "store tok = Some t"
  shows "(now \<le> expires t \<longrightarrow>
            fst (validate_success now (Str tok) w) =
              reply 200 (Redeemed (tok_order_id t) (tok_payment_id t) (Some (tok_amount t))))
       \<and> (now > expires t \<longrightarrow>
            fst (validate_success now (Str tok) w) = reply 403 (Verdict False None None))
       \<and> successTokens (snd (validate_success now (Str tok) w)) = Some (store(tok := None))
       \<and> (\<forall>later. validate_success later (Str tok) (snd (validate_success now (Str tok) w)) =
            (reply 403 (Verdict False None None), snd (validate_success now (Str tok) w)))
       \<and> (\<exists>s. successTokens (mint tok t0 oid pid p w0) = Some s
              \<and> s tok = Some \<lparr>tok_order_id = oid, tok_payment_id = pid,
                              tok_amount = of_int (pay_amount p) / 100,
                              expires = t0 + 300000\<rparr>)"
proof -
  have k: "tok \<notin> set Object_prototype_keys"
    using assms(1) by (rule hex_token_not_prototype_key)
  have y: "truthy (Str tok)"
    using assms(1) by (rule hex_token_truthy)
  show ?thesis
    using k y assms(2,3)
    by (auto simp: validate_success_def mint_def js_get_def js_delete_def Let_def)
qed

theorem success_token_single_use_witness:
  "is_hex_token example_token
   \<and> fst (validate_success 1000 (Str example_token)
         (mint example_token 0 (Str ''order_1'') (Str ''pay_1'') example_payment empty_world)) =
       reply 200 (Redeemed (Str ''order_1'') (Str ''pay_1'') (Some 500))
   \<and> fst (validate_success 2000 (Str example_token)
         (snd (validate_success 1000 (Str example_token)
           (mint example_token 0 (Str ''order_1'') (Str ''pay_1'') example_payment empty_world)))) =
       reply 403 (Verdict False None None)"
proof -
  let ?t = "\<lparr>tok_order_id = Str ''order_1'', tok_payment_id = Str ''pay_1'',
             tok_amount = 500, expires = 300000\<rparr>"
  let ?w = "mint example_token 0 (Str ''order_1'') (Str ''pay_1'') example_payment empty_world"
  have h: "is_hex_token example_token"
    by (simp add: is_hex_token_def example_defs)
  have s: "successTokens ?w = Some (Map.empty(example_token \<mapsto> ?t))"
    by (simp add: mint_def example_defs)
  have g: "(Map.empty(example_token \<mapsto> ?t)) example_token = Some ?t"
    by simp
  show ?thesis
    using h success_token_single_use [OF h s g, of 1000]
    by simp
qed

text \<open>
  C10. A redeem without a reference, and a redeem on a world whose token store was
  never created, is answered with 403 and changes nothing. In server.js as it stands
  the store is never created, whatever events follow the start of the process, so
  every redeem, of whatever token, is answered with 403 and leaves the world as it is.
\<close>

theorem redeem_missing_not_found:
  "(\<not> truthy ref \<longrightarrow> validate_success now ref w = (reply 403 (Verdict False None None), w))
   \<and> (successTokens w = None \<longrightarrow>
        validate_success now ref w = (reply 403 (Verdict False None None), w))
   \<and> (successTokens w0 = None \<longrightarrow>
        successTokens (fst (run Unbound hmac secret (w0, []) evs)) = None
        \<and> validate_success now ref (fst (run Unbound hmac secret (w0, []) evs)) =
            (reply 403 (Verdict False None None), fst (run Unbound hmac secret (w0, []) evs)))"
proof (intro conjI impI)
  assume "\<not> truthy ref"
  then show "validate_success now ref w = (reply 403 (Verdict False None None), w)"
    by (simp add: validate_success_def)
next
  assume "successTokens w = None"
  then show "validate_success now ref w = (reply 403 (Verdict False None None), w)"
    by (rule validate_success_no_store)
next
  assume n: "successTokens w0 = None"
  then have e: "fst (run Unbound hmac secret (w0, []) evs) = w0"
    using run_unbound [of "[]" hmac secret w0 evs] by simp
  with n show "successTokens (fst (run Unbound hmac secret (w0, []) evs)) = None"
    by simp
  from e n show "validate_success now ref (fst (run Unbound hmac secret (w0, []) evs)) =
            (reply 403 (Verdict False None None), fst (run Unbound hmac secret (w0, []) evs))"
    by (simp add: validate_success_no_store)
qed

theorem redeem_missing_not_found_witness:
  "\<not> truthy Undefined
   \<and> validate_success 0 Undefined empty_world = (reply 403 (Verdict False None None), empty_world)
   \<and> successTokens empty_world = None
   \<and> validate_success 0 (Str ''constructor'')
       (fst (run Unbound example_hmac ''s3cret'' (empty_world, [])
          [Callback example_callback, Resume 0 example_callback_env, Callback example_callback])) =
       (reply 403 (Verdict False None None),
        fst (run Unbound example_hmac ''s3cret'' (empty_world, [])
          [Callback example_callback, Resume 0 example_callback_env, Callback example_callback]))"
proof -
  let ?evs = "[Callback example_callback, Resume 0 example_callback_env,
               Callback example_callback]"
  have u: "\<not> truthy Undefined"
    by simp
  have n: "successTokens empty_world = None"
    by (simp add: example_defs)
  note A = redeem_missing_not_found [of Undefined 0 empty_world empty_world example_hmac
      "''s3cret''" ?evs]
  note B = redeem_missing_not_found [of "Str ''constructor''" 0 empty_world empty_world
      example_hmac "''s3cret''" ?evs]
  from A u have a: "validate_success 0 Undefined empty_world =
      (reply 403 (Verdict False None None), empty_world)"
    by blast
  from B n have b: "validate_success 0 (Str ''constructor'')
       (fst (run Unbound example_hmac ''s3cret'' (empty_world, []) ?evs)) =
       (reply 403 (Verdict False None None),
        fst (run Unbound example_hmac ''s3cret'' (empty_world, []) ?evs))"
    by blast
  from u a n b show ?thesis
    by blast
qed

text \<open>
  Where the store exists, a reference that is neither in it nor a member of
  \<open>Object.prototype\<close> is answered with 403 as well.
\<close>

lemma validate_success_missing:
  assumes "\<not> truthy ref \<or> successTokens w = None
           \<or> (\<exists>store. successTokens w = Some store \<and> store (to_string ref) = None
                 \<and> to_string ref \<notin> set Object_prototype_keys)"
  shows "validate_success now ref w = (reply 403 (Verdict False None None), w)"
  using assms by (auto simp: validate_success_def js_get_def)

text \<open>
  A member of \<open>Object.prototype\<close> is read as a stored token on a store that exists.
  No state that server.js as it stands reaches has a store.
\<close>

lemma validate_success_inherited_key:
  "validate_success now (Str ''constructor'') (empty_world\<lparr>successTokens := Some Map.empty\<rparr>) =
     (reply 200 (Redeemed Undefined Undefined None),
      empty_world\<lparr>successTokens := Some Map.empty\<rparr>)"
  by (simp add: validate_success_def js_get_def Object_prototype_keys_def)

end
